theory Spec2Isabelle
  imports Complex_Main "HOL-Library.Multiset" "HOL-Library.Char_ord" "HOL-Library.List_Lexorder"
    "HOL-Library.Product_Lexorder"
begin

section \<open>Data model\<close>

text \<open>
  The dashboard script \<^verbatim>\<open>app.py\<close> works on one pandas DataFrame \<^verbatim>\<open>df\<close>, read from
  \<^verbatim>\<open>merged_data.csv\<close>. A DataFrame is modelled as the list of its rows, in index order; a row
  is a record of the columns that the modelled computations read. Calendar dates
  (\<^verbatim>\<open>datetime64\<close> values at midnight) are day numbers, so that a \<^verbatim>\<open>Timedelta\<close> in days is a
  difference of integers. A floating-point column holds finite binary64 values, which are
  real numbers. The monthly totals are modelled as exact sums; where a result depends on how
  an arithmetic result is rounded (bin edges, averages, the lift), the rounding is explicit in
  the model, see the section on floating point.
\<close>

record sales_record =
  Date :: int
  Store :: int
  Dept :: int
  Weekly_Sales :: real
  IsHoliday_x :: bool
  IsSuperBowl :: bool
  IsLaborDay :: bool
  IsThanksgiving :: bool
  IsChristmas :: bool
  Fuel_Price :: real
  Temperature :: real
  Month_Name :: string

type_synonym dataframe = "sales_record list"

text \<open>The exceptions of Python and pandas that the modelled code can raise.\<close>

datatype py_error = IndexError | KeyError | ValueError | FileNotFoundError | EmptyDataError | ParserError

section \<open>Sidebar filters (lines 40--52 and 134--143)\<close>

text \<open>
  \<^verbatim>\<open>date_range\<close> is what \<^verbatim>\<open>st.sidebar.date_input\<close> returns: a tuple of dates, read by the
  script at positions 0 and 1. Reading a missing position raises \<^verbatim>\<open>IndexError\<close>.
  \<^verbatim>\<open>holiday_filter\<close> is the string chosen in the select box.
\<close>

definition date_mask :: "int list \<Rightarrow> sales_record \<Rightarrow> bool" where
  "date_mask date_range r \<longleftrightarrow> Date r \<ge> date_range ! 0 \<and> Date r \<le> date_range ! 1"

definition holiday_step :: "string \<Rightarrow> dataframe \<Rightarrow> dataframe" where
  "holiday_step holiday_filter d =
     (if holiday_filter = ''Yes'' then filter (\<lambda>r. IsHoliday_x r = True) d
      else if holiday_filter = ''No'' then filter (\<lambda>r. IsHoliday_x r = False) d
      else d)"

definition df_filtered :: "dataframe \<Rightarrow> int list \<Rightarrow> string \<Rightarrow> py_error + dataframe" where
  "df_filtered df date_range holiday_filter =
     (if length date_range < 2 then Inl IndexError
      else Inr (holiday_step holiday_filter (filter (date_mask date_range) df)))"

definition df_chart_filtered ::
  "dataframe \<Rightarrow> int \<Rightarrow> int \<Rightarrow> int list \<Rightarrow> string \<Rightarrow> py_error + dataframe" where
  "df_chart_filtered df store_for_chart dept_for_chart date_range holiday_filter =
     (if length date_range < 2 then Inl IndexError
      else Inr (holiday_step holiday_filter
        (filter (\<lambda>r. Store r = store_for_chart \<and> Dept r = dept_for_chart \<and> date_mask date_range r) df)))"

text \<open>The predicates of a filter specification, each taken on its own.\<close>

definition holiday_pred :: "string \<Rightarrow> sales_record \<Rightarrow> bool" where
  "holiday_pred holiday_filter r \<longleftrightarrow>
     (holiday_filter = ''Yes'' \<longrightarrow> IsHoliday_x r) \<and> (holiday_filter = ''No'' \<longrightarrow> \<not> IsHoliday_x r)"

definition date_pred :: "int \<Rightarrow> int \<Rightarrow> sales_record \<Rightarrow> bool" where
  "date_pred date_start date_end r \<longleftrightarrow> date_start \<le> Date r \<and> Date r \<le> date_end"

section \<open>Holiday-type classification (lines 407--412 and 490--502)\<close>

text \<open>The row-wise function applied with \<^verbatim>\<open>df_filtered.apply(get_holiday_type, axis=1)\<close>.\<close>

definition get_holiday_type :: "sales_record \<Rightarrow> string" where
  "get_holiday_type row =
     (if IsSuperBowl row then ''Super Bowl''
      else if IsLaborDay row then ''Labor Day''
      else if IsThanksgiving row then ''Thanksgiving''
      else if IsChristmas row then ''Christmas''
      else ''None'')"

text \<open>
  The vectorised version: a column of \<^verbatim>\<open>'None'\<close>, then four assignments
  \<^verbatim>\<open>df_holidays.loc[mask, 'Holiday_Type'] = label\<close>, each one writing its label at the rows
  where the boolean mask holds and leaving the other rows as they are.
\<close>

fun loc_assign :: "bool list \<Rightarrow> 'a \<Rightarrow> 'a list \<Rightarrow> 'a list" where
  "loc_assign (m # msk) v (x # col) = (if m then v else x) # loc_assign msk v col"
| "loc_assign _ v col = col"

definition df_holidays_Holiday_Type :: "dataframe \<Rightarrow> string list" where
  "df_holidays_Holiday_Type df =
     (let col0 = replicate (length df) ''None'';
          col1 = loc_assign (map IsSuperBowl df) ''Super Bowl'' col0;
          col2 = loc_assign (map IsLaborDay df) ''Labor Day'' col1;
          col3 = loc_assign (map IsThanksgiving df) ''Thanksgiving'' col2;
          col4 = loc_assign (map IsChristmas df) ''Christmas'' col3
      in col4)"

definition flag_count :: "sales_record \<Rightarrow> nat" where
  "flag_count r = length (filter id [IsSuperBowl r, IsLaborDay r, IsThanksgiving r, IsChristmas r])"

definition holiday_labels :: "string set" where
  "holiday_labels = {''Super Bowl'', ''Labor Day'', ''Thanksgiving'', ''Christmas'', ''None''}"

text \<open>The label of the first true flag of a list of flags in priority order.\<close>

definition priority_label :: "(string \<times> bool) list \<Rightarrow> string" where
  "priority_label flags = (case filter snd flags of [] \<Rightarrow> ''None'' | (label, _) # _ \<Rightarrow> label)"

section \<open>Calendar dates\<close>

text \<open>
  The day number (days since 1970-01-01) of a proleptic Gregorian date, which is what
  \<^verbatim>\<open>pd.to_datetime('2010-02-12')\<close> denotes in the model.
\<close>

definition days_from_civil :: "int \<Rightarrow> int \<Rightarrow> int \<Rightarrow> int" where
  "days_from_civil y m d =
     (let y' = (if m \<le> 2 then y - 1 else y);
          era = y' div 400;
          yoe = y' - era * 400;
          doy = (153 * (m + (if m > 2 then - 3 else 9)) + 2) div 5 + d - 1;
          doe = yoe * 365 + yoe div 4 - yoe div 100 + doy
      in era * 146097 + doe - 719468)"

section \<open>Sales trend around holidays (lines 437--451)\<close>

text \<open>
  A row of a window frame: the row of \<^verbatim>\<open>df\<close> with the two added columns.
  \<^verbatim>\<open>pd.Timedelta(weeks=2)\<close> is 14 days; \<^verbatim>\<open>.dt.days // 7\<close> is floor division of the
  day difference, which is \<open>div\<close> on \<open>int\<close>. \<^verbatim>\<open>pd.concat\<close> of an empty list raises
  \<^verbatim>\<open>ValueError\<close>.
\<close>

record window_row =
  Row :: sales_record
  Event :: string
  Delta_Week :: int

definition window :: "dataframe \<Rightarrow> int \<Rightarrow> string \<Rightarrow> window_row list" where
  "window df date name =
     map (\<lambda>r. \<lparr>Row = r, Event = name, Delta_Week = (Date r - date) div 7\<rparr>)
       (filter (\<lambda>r. Date r \<ge> date - 14 \<and> Date r \<le> date + 14) df)"

definition pd_concat :: "'a list list \<Rightarrow> py_error + 'a list" where
  "pd_concat objs = (if objs = [] then Inl ValueError else Inr (concat objs))"

definition get_holiday_windows :: "dataframe \<Rightarrow> int list \<Rightarrow> string \<Rightarrow> py_error + window_row list" where
  "get_holiday_windows df holiday_dates name =
     pd_concat (map (\<lambda>date. window df date name) holiday_dates)"

definition combined_trends :: "dataframe \<Rightarrow> py_error + window_row list" where
  "combined_trends df =
     (case get_holiday_windows df
             [days_from_civil 2010 2 12, days_from_civil 2011 2 11,
              days_from_civil 2012 2 10, days_from_civil 2013 2 8] ''Super Bowl'' of
        Inl e \<Rightarrow> Inl e
      | Inr w1 \<Rightarrow>
     (case get_holiday_windows df
             [days_from_civil 2010 9 10, days_from_civil 2011 9 9,
              days_from_civil 2012 9 7, days_from_civil 2013 9 6] ''Labor Day'' of
        Inl e \<Rightarrow> Inl e
      | Inr w2 \<Rightarrow>
     (case get_holiday_windows df
             [days_from_civil 2010 11 26, days_from_civil 2011 11 25,
              days_from_civil 2012 11 23, days_from_civil 2013 11 29] ''Thanksgiving'' of
        Inl e \<Rightarrow> Inl e
      | Inr w3 \<Rightarrow>
     (case get_holiday_windows df
             [days_from_civil 2010 12 31, days_from_civil 2011 12 30,
              days_from_civil 2012 12 28, days_from_civil 2013 12 27] ''Christmas'' of
        Inl e \<Rightarrow> Inl e
      | Inr w4 \<Rightarrow> pd_concat [w1, w2, w3, w4]))))"

text \<open>
  What the specification asks of a row \<open>t\<close> of the window around \<open>anchor\<close>: it comes from
  a row of the frame dated within 14 days of the anchor, both ends included, carries the
  event name, and its offset is the floor of the day difference divided by 7.
\<close>

definition in_window :: "dataframe \<Rightarrow> int \<Rightarrow> string \<Rightarrow> window_row \<Rightarrow> bool" where
  "in_window df anchor name t \<longleftrightarrow>
     Row t \<in> set df \<and> anchor - 14 \<le> Date (Row t) \<and> Date (Row t) \<le> anchor + 14
     \<and> Event t = name \<and> Delta_Week t = \<lfloor>real_of_int (Date (Row t) - anchor) / 7\<rfloor>"

text \<open>The anchor dates that \<open>combined_trends\<close> passes, by event.\<close>

definition holiday_anchors :: "(string \<times> int list) list" where
  "holiday_anchors =
     [(''Super Bowl'', [days_from_civil 2010 2 12, days_from_civil 2011 2 11,
                        days_from_civil 2012 2 10, days_from_civil 2013 2 8]),
      (''Labor Day'', [days_from_civil 2010 9 10, days_from_civil 2011 9 9,
                       days_from_civil 2012 9 7, days_from_civil 2013 9 6]),
      (''Thanksgiving'', [days_from_civil 2010 11 26, days_from_civil 2011 11 25,
                          days_from_civil 2012 11 23, days_from_civil 2013 11 29]),
      (''Christmas'', [days_from_civil 2010 12 31, days_from_civil 2011 12 30,
                       days_from_civil 2012 12 28, days_from_civil 2013 12 27])]"

section \<open>Grouping and reducing\<close>

text \<open>
  \<^verbatim>\<open>frame.groupby(key)[column].agg()\<close> with pandas' default \<^verbatim>\<open>sort=True\<close>: one entry per
  distinct key, keys ascending, the aggregate taken over the rows of the group in frame
  order. Strings are ordered as Python orders them, character by character.
\<close>

definition groupby_agg ::
  "('r \<Rightarrow> 'k::linorder) \<Rightarrow> ('r \<Rightarrow> real) \<Rightarrow> (real list \<Rightarrow> 'v) \<Rightarrow> 'r list \<Rightarrow> ('k \<times> 'v) list" where
  "groupby_agg key column agg frame =
     map (\<lambda>k. (k, agg (map column (filter (\<lambda>r. key r = k) frame)))) (sort (remdups (map key frame)))"

text \<open>
  \<^verbatim>\<open>series.reindex(labels)\<close> on a series with unique index: one entry per requested label, in
  the requested order, NaN (here \<open>None\<close>) where the series has no such label.
\<close>

definition reindex :: "'k list \<Rightarrow> ('k \<times> 'v) list \<Rightarrow> ('k \<times> 'v option) list" where
  "reindex labels series = map (\<lambda>k. (k, map_of series k)) labels"

subsection \<open>Total sales by month (lines 160--170 and 212--222)\<close>

definition monthly_order :: "string list" where
  "monthly_order =
     [''January'', ''February'', ''March'', ''April'', ''May'', ''June'',
      ''July'', ''August'', ''September'', ''October'', ''November'', ''December'']"

definition monthly_sales :: "dataframe \<Rightarrow> (string \<times> real option) list" where
  "monthly_sales frame = reindex monthly_order (groupby_agg Month_Name Weekly_Sales sum_list frame)"

text \<open>The total of a month: the sum over its rows, missing when the frame has no such row.\<close>

definition month_total :: "dataframe \<Rightarrow> string \<Rightarrow> real option" where
  "month_total frame m =
     (if m \<in> Month_Name ` set frame
      then Some (sum_list (map Weekly_Sales (filter (\<lambda>r. Month_Name r = m) frame)))
      else None)"

section \<open>Floating point\<close>

text \<open>
  Python and numpy compute with IEEE binary64 numbers. A value is a finite number, an
  infinity or NaN; the two zeros are not told apart. \<open>binary64 x\<close> is the finite float
  nearest to the real \<open>x\<close>, halves going to the even neighbour: \<open>bin_exp x\<close> is
  \<open>floor (log2 x)\<close>, \<open>ulp e\<close> the distance of neighbouring floats with that exponent (the
  exponent is held at -1022 for subnormal numbers), and \<open>to_fval\<close> replaces a result beyond the
  largest float by an infinity.
\<close>

definition rint :: "real \<Rightarrow> int" where
  "rint x =
     (let f = \<lfloor>x\<rfloor>; r = x - of_int f
      in if r < 1 / 2 then f else if r > 1 / 2 then f + 1 else if even f then f else f + 1)"

function bin_exp :: "real \<Rightarrow> int" where
  "bin_exp x =
     (if x \<le> 0 then 0
      else if 2 \<le> x then bin_exp (x / 2) + 1
      else if x < 1 then bin_exp (x * 2) - 1
      else 0)"
  by pat_completeness auto
termination
proof (relation "measure (\<lambda>x. nat \<bar>\<lfloor>log 2 x\<rfloor>\<bar>)")
  show "wf (measure (\<lambda>x. nat \<bar>\<lfloor>log 2 x\<rfloor>\<bar>))" by simp
next
  fix x :: real
  assume "\<not> x \<le> 0" and big: "2 \<le> x"
  then have "log 2 (x / 2) = log 2 x - 1" and "1 \<le> log 2 x"
    by (simp_all add: log_divide le_log_iff)
  then have "\<lfloor>log 2 (x / 2)\<rfloor> = \<lfloor>log 2 x\<rfloor> - 1" and "1 \<le> \<lfloor>log 2 x\<rfloor>"
    by (simp_all add: le_floor_iff)
  then have "nat \<bar>\<lfloor>log 2 (x / 2)\<rfloor>\<bar> < nat \<bar>\<lfloor>log 2 x\<rfloor>\<bar>" by linarith
  then show "(x / 2, x) \<in> measure (\<lambda>x. nat \<bar>\<lfloor>log 2 x\<rfloor>\<bar>)" by simp
next
  fix x :: real
  assume pos: "\<not> x \<le> 0" and "\<not> 2 \<le> x" and small: "x < 1"
  then have "log 2 (x * 2) = log 2 x + 1" and "log 2 x < 0"
    by (simp_all add: log_mult)
  then have "\<lfloor>log 2 (x * 2)\<rfloor> = \<lfloor>log 2 x\<rfloor> + 1" and "\<lfloor>log 2 x\<rfloor> < 0"
    by (simp_all add: floor_less_iff)
  then have "nat \<bar>\<lfloor>log 2 (x * 2)\<rfloor>\<bar> < nat \<bar>\<lfloor>log 2 x\<rfloor>\<bar>" by linarith
  then show "(x * 2, x) \<in> measure (\<lambda>x. nat \<bar>\<lfloor>log 2 x\<rfloor>\<bar>)" by simp
qed

definition ulp :: "int \<Rightarrow> real" where
  "ulp e = (if 52 \<le> e then 2 ^ nat (e - 52) else 1 / 2 ^ nat (52 - e))"

definition binary64 :: "real \<Rightarrow> real" where
  "binary64 x =
     (if x = 0 then 0
      else let q = ulp (max (bin_exp \<bar>x\<bar>) (- 1022)) in real_of_int (rint (x / q)) * q)"

datatype fval = Fin real | PInf | NInf | NaN

definition to_fval :: "real \<Rightarrow> fval" where
  "to_fval r =
     (let y = binary64 r
      in if 2 ^ 1024 \<le> y then PInf else if y \<le> - (2 ^ 1024) then NInf else Fin y)"

fun fadd_ieee :: "fval \<Rightarrow> fval \<Rightarrow> fval" where
  "fadd_ieee (Fin a) (Fin b) = to_fval (a + b)"
| "fadd_ieee NaN _ = NaN"
| "fadd_ieee _ NaN = NaN"
| "fadd_ieee PInf NInf = NaN"
| "fadd_ieee NInf PInf = NaN"
| "fadd_ieee PInf _ = PInf"
| "fadd_ieee _ PInf = PInf"
| "fadd_ieee NInf _ = NInf"
| "fadd_ieee _ NInf = NInf"

fun fneg :: "fval \<Rightarrow> fval" where
  "fneg (Fin a) = Fin (- a)"
| "fneg PInf = NInf"
| "fneg NInf = PInf"
| "fneg NaN = NaN"

definition fsub_ieee :: "fval \<Rightarrow> fval \<Rightarrow> fval" where
  "fsub_ieee a b = fadd_ieee a (fneg b)"

fun negative :: "fval \<Rightarrow> bool" where
  "negative (Fin a) \<longleftrightarrow> a < 0"
| "negative NInf \<longleftrightarrow> True"
| "negative _ \<longleftrightarrow> False"

fun fmul_ieee :: "fval \<Rightarrow> fval \<Rightarrow> fval" where
  "fmul_ieee (Fin a) (Fin b) = to_fval (a * b)"
| "fmul_ieee NaN _ = NaN"
| "fmul_ieee _ NaN = NaN"
| "fmul_ieee a b =
     (if a = Fin 0 \<or> b = Fin 0 then NaN
      else if negative a = negative b then PInf else NInf)"

text \<open>
  A finite non-zero number divided by zero is an infinity whose sign depends on the sign of
  the zero; the model takes the zero as positive. The script divides only by an average it
  has tested to be non-zero.
\<close>

fun fdiv_ieee :: "fval \<Rightarrow> fval \<Rightarrow> fval" where
  "fdiv_ieee (Fin a) (Fin b) =
     (if b = 0 then (if a = 0 then NaN else if a > 0 then PInf else NInf) else to_fval (a / b))"
| "fdiv_ieee NaN _ = NaN"
| "fdiv_ieee _ NaN = NaN"
| "fdiv_ieee (Fin a) _ = Fin 0"
| "fdiv_ieee a (Fin b) = (if negative a = negative (Fin b) then PInf else NInf)"
| "fdiv_ieee _ _ = NaN"


text \<open>
  The order in which an average adds its values differs between the kernels of numpy,
  bottleneck and pandas' group-by, and so can the last digits of the result. The model
  therefore takes the arithmetic as a parameter: the three operations the script applies to
  averages, and \<open>f_mean\<close>, the average of a non-empty column of finite values as the kernel
  in use computes it. The average of no values is NaN whatever the kernel.
\<close>

record float_ops =
  f_sub :: "fval \<Rightarrow> fval \<Rightarrow> fval"
  f_mul :: "fval \<Rightarrow> fval \<Rightarrow> fval"
  f_div :: "fval \<Rightarrow> fval \<Rightarrow> fval"
  f_mean :: "real list \<Rightarrow> fval"

definition mean :: "float_ops \<Rightarrow> real list \<Rightarrow> fval" where
  "mean ops xs = (if xs = [] then NaN else f_mean ops xs)"

text \<open>
  The IEEE operations, with the average that adds from left to right starting from zero
  and divides by the count.
\<close>

definition seq_mean :: "real list \<Rightarrow> fval" where
  "seq_mean xs = fdiv_ieee (foldl fadd_ieee (Fin 0) (map Fin xs)) (Fin (real (length xs)))"

definition ieee_ops :: float_ops where
  "ieee_ops = \<lparr>f_sub = fsub_ieee, f_mul = fmul_ieee, f_div = fdiv_ieee, f_mean = seq_mean\<rparr>"

section \<open>Holiday lift (lines 486--531)\<close>

text \<open>\<^verbatim>\<open>Series.unique()\<close>: the distinct values in order of first appearance.\<close>

fun unique :: "'a list \<Rightarrow> 'a list" where
  "unique [] = []"
| "unique (x # xs) = x # unique (filter (\<lambda>y. y \<noteq> x) xs)"

text \<open>
  A row of \<^verbatim>\<open>results\<close>. \<^verbatim>\<open>lift_pct\<close> is Python's \<^verbatim>\<open>None\<close> or a float.
\<close>

record lift_row =
  Holiday_Type :: string
  Holiday_Week_Avg_Sales :: fval
  Non_Holiday_Week_Avg_Sales :: fval
  Sales_Lift_Percent :: "fval option"

text \<open>
  The frame \<^verbatim>\<open>df_filtered\<close> of line 487 (the script reuses the name of the sidebar view) is
  \<open>df_filtered_holiday\<close>, called \<open>sel\<close> where it is a parameter. \<open>lift_entry\<close> is one pass of
  the loop body for the holiday type \<open>ht\<close>. The test
  \<^verbatim>\<open>not non_holiday_sales_avg or pd.isna(non_holiday_sales_avg)\<close> holds for a zero and for
  NaN, and for no other value.
\<close>

definition lift_entry :: "float_ops \<Rightarrow> dataframe \<Rightarrow> string \<Rightarrow> lift_row" where
  "lift_entry ops sel ht =
     (let holiday_sales_avg =
            mean ops (map Weekly_Sales (filter (\<lambda>r. get_holiday_type r = ht) sel));
          non_holiday_sales_avg =
            mean ops (map Weekly_Sales (filter (\<lambda>r. get_holiday_type r = ''None'') sel));
          lift_pct =
            (if non_holiday_sales_avg = Fin 0 \<or> non_holiday_sales_avg = NaN then None
             else Some (f_mul ops
                          (f_div ops (f_sub ops holiday_sales_avg non_holiday_sales_avg)
                             non_holiday_sales_avg)
                          (Fin 100)))
      in \<lparr>Holiday_Type = ht, Holiday_Week_Avg_Sales = holiday_sales_avg,
          Non_Holiday_Week_Avg_Sales = non_holiday_sales_avg, Sales_Lift_Percent = lift_pct\<rparr>)"

definition df_filtered_holiday :: "dataframe \<Rightarrow> int \<Rightarrow> int \<Rightarrow> dataframe" where
  "df_filtered_holiday df store_holiday dept_holiday =
     filter (\<lambda>r. Store r = store_holiday \<and> Dept r = dept_holiday) df"

definition lift_results :: "float_ops \<Rightarrow> dataframe \<Rightarrow> int \<Rightarrow> int \<Rightarrow> lift_row list" where
  "lift_results ops df store_holiday dept_holiday =
     (let sel = df_filtered_holiday df store_holiday dept_holiday;
          holiday_types = filter (\<lambda>ht. ht \<noteq> ''None'') (unique (map get_holiday_type sel))
      in map (lift_entry ops sel) holiday_types)"

text \<open>
  \<^verbatim>\<open>DataFrame.dropna()\<close>: the rows in which no column is NaN or \<^verbatim>\<open>None\<close>. An infinity is
  not a missing value.
\<close>

definition dropna :: "lift_row list \<Rightarrow> lift_row list" where
  "dropna frame =
     filter (\<lambda>r. Holiday_Week_Avg_Sales r \<noteq> NaN \<and> Non_Holiday_Week_Avg_Sales r \<noteq> NaN
                 \<and> Sales_Lift_Percent r \<noteq> None \<and> Sales_Lift_Percent r \<noteq> Some NaN) frame"

definition lift_of :: "lift_row \<Rightarrow> fval" where
  "lift_of r = (case Sales_Lift_Percent r of Some v \<Rightarrow> v | None \<Rightarrow> NaN)"

text \<open>
  \<^verbatim>\<open>df_lift.sort_values(by='Sales_Lift_Percent', ascending=False)\<close> on a frame of at most
  four rows, none of them with a NaN lift: the rows in descending order of the lift. pandas
  reverses the column, sorts it ascending and reverses the outcome; rows with equal lift are
  taken to keep their order, as they do under numpy's insertion sort of short arrays, and
  nothing proved below depends on the order of rows with equal lift. \<open>fkey\<close> places the
  floats in their order. The empty frame is left as it is (the script shows a notice).
\<close>

fun fkey :: "fval \<Rightarrow> int \<times> real" where
  "fkey NInf = (- 1, 0)"
| "fkey (Fin a) = (0, a)"
| "fkey PInf = (1, 0)"
| "fkey NaN = (2, 0)"

definition df_lift :: "float_ops \<Rightarrow> dataframe \<Rightarrow> int \<Rightarrow> int \<Rightarrow> lift_row list" where
  "df_lift ops df store_holiday dept_holiday =
     (let frame = dropna (lift_results ops df store_holiday dept_holiday)
      in if frame = [] then frame
         else rev (sort_key (\<lambda>r. fkey (lift_of r)) (rev frame)))"

text \<open>The baseline of a selection: the average of its rows classified \<^verbatim>\<open>'None'\<close>.\<close>

definition baseline :: "float_ops \<Rightarrow> dataframe \<Rightarrow> int \<Rightarrow> int \<Rightarrow> fval" where
  "baseline ops df s d =
     mean ops (map Weekly_Sales
       (filter (\<lambda>r. get_holiday_type r = ''None'') (df_filtered_holiday df s d)))"

section \<open>Binning a continuous column (lines 313--317 and 335--339)\<close>

text \<open>
  \<^verbatim>\<open>pd.cut(x, bins=n)\<close> with an integer \<^verbatim>\<open>n\<close> and the defaults \<^verbatim>\<open>right=True\<close>,
  \<^verbatim>\<open>include_lowest=False\<close>, \<^verbatim>\<open>precision=3\<close>, as pandas implements it
  (\<^verbatim>\<open>pandas/core/reshape/tile.py\<close>): \<^verbatim>\<open>_nbins_to_bins\<close> computes the edges with
  \<^verbatim>\<open>np.linspace\<close> and widens them, \<^verbatim>\<open>searchsorted(side='left')\<close> assigns each value the
  bin \<open>(bins[k], bins[k+1]]\<close> it lies in, and \<^verbatim>\<open>_format_labels\<close> names the bins by their
  edges rounded to the precision.

  The edges are results of float arithmetic. \<open>rnd\<close> is the rounding of a real number to a
  float: a parameter, so that what is proved of the edges holds however results are rounded,
  and \<open>binary64\<close> where the edges of a concrete column are computed. Every operation of the
  code rounds once. \<^verbatim>\<open>np.linspace(start, stop, num)\<close> computes
  \<^verbatim>\<open>step = (stop - start) / (num - 1)\<close> and the points \<^verbatim>\<open>i * step + start\<close> (or
  \<^verbatim>\<open>(i / (num - 1)) * (stop - start) + start\<close> when the step is zero) and then sets the
  last point to \<^verbatim>\<open>stop\<close>. A result too large for a float is not modelled: the columns are
  fuel prices and temperatures.
\<close>

definition linspace :: "(real \<Rightarrow> real) \<Rightarrow> real \<Rightarrow> real \<Rightarrow> nat \<Rightarrow> real list" where
  "linspace rnd start stop num =
     (let dv = real (num - 1);
          delta = rnd (stop - start);
          step = rnd (delta / dv);
          y = map (\<lambda>i. if num \<le> 1 then rnd (rnd (real i * delta) + start)
                         else if step = 0 then rnd (rnd (rnd (real i / dv) * delta) + start)
                         else rnd (rnd (real i * step) + start)) [0..<num]
      in if num > 1 then y[num - 1 := stop] else y)"

definition nbins_to_bins :: "(real \<Rightarrow> real) \<Rightarrow> real list \<Rightarrow> int \<Rightarrow> py_error + real list" where
  "nbins_to_bins rnd x nbins =
     (if nbins < 1 then Inl ValueError
      else if x = [] then Inl ValueError
      else
        let mn = Min (set x); mx = Max (set x) in
        if mn = mx then
          let mn' = rnd (mn - (if mn \<noteq> 0 then rnd (rnd 0.001 * \<bar>mn\<bar>) else rnd 0.001));
              mx' = rnd (mx + (if mx \<noteq> 0 then rnd (rnd 0.001 * \<bar>mx\<bar>) else rnd 0.001))
          in Inr (linspace rnd mn' mx' (nat (nbins + 1)))
        else
          let bins = linspace rnd mn mx (nat (nbins + 1));
              adj = rnd (rnd (mx - mn) * rnd 0.001)
          in Inr (bins[0 := rnd (bins ! 0 - adj)]))"

text \<open>
  \<^verbatim>\<open>_bins_to_cuts\<close> refuses edges that are not all different, unless there are just two
  (\<^verbatim>\<open>ValueError: Bin edges must be unique\<close>); this happens when the range of the column is
  too small for its floats to tell the edges apart.
\<close>

definition cut_bins :: "(real \<Rightarrow> real) \<Rightarrow> real list \<Rightarrow> int \<Rightarrow> py_error + real list" where
  "cut_bins rnd x nbins =
     (case nbins_to_bins rnd x nbins of
        Inl e \<Rightarrow> Inl e
      | Inr bins \<Rightarrow> if \<not> distinct bins \<and> length bins \<noteq> 2 then Inl ValueError else Inr bins)"

text \<open>
  \<^verbatim>\<open>bins.searchsorted(x, side='left')\<close>: numpy's binary search, which on ascending edges
  returns the number of edges below the value.
\<close>

definition searchsorted_left :: "real list \<Rightarrow> real \<Rightarrow> nat" where
  "searchsorted_left a v = length (takeWhile (\<lambda>b. b < v) a)"

text \<open>The bin number of a value, NaN (\<open>None\<close>) for a value outside all bins.\<close>

definition bin_code :: "real list \<Rightarrow> real \<Rightarrow> nat option" where
  "bin_code bins v =
     (let ids = searchsorted_left bins v
      in if ids = length bins \<or> ids = 0 then None else Some (ids - 1))"

subsection \<open>Bin labels\<close>

text \<open>
  \<^verbatim>\<open>_round_frac(x, precision)\<close> rounds \<open>x\<close> with \<^verbatim>\<open>np.around\<close> (halves to even) to
  \<open>precision\<close> decimals, or for \<open>\<bar>x\<bar> < 1\<close> to \<open>precision\<close> significant digits.
  \<open>lead_zeros x\<close> is the number of zeros between the decimal point and the first non-zero
  digit of \<open>x\<close>, that is \<open>- floor (log10 \<bar>x\<bar>) - 1\<close>.
\<close>

function lead_zeros :: "real \<Rightarrow> nat" where
  "lead_zeros x = (if x = 0 \<or> 1 \<le> \<bar>x\<bar> * 10 then 0 else Suc (lead_zeros (x * 10)))"
  by pat_completeness auto
termination
proof (relation "measure (\<lambda>x. nat \<lceil>- log 10 \<bar>x\<bar>\<rceil>)")
  show "wf (measure (\<lambda>x. nat \<lceil>- log 10 \<bar>x\<bar>\<rceil>))" by simp
next
  fix x :: real
  assume a: "\<not> (x = 0 \<or> 1 \<le> \<bar>x\<bar> * 10)"
  then have x0: "0 < \<bar>x\<bar>" and small: "\<bar>x\<bar> * 10 < 1" by auto
  have "log 10 (\<bar>x\<bar> * 10) = log 10 \<bar>x\<bar> + 1"
    using x0 by (simp add: log_mult)
  moreover have "log 10 (\<bar>x\<bar> * 10) < 0"
    using x0 small by simp
  ultimately have "- log 10 \<bar>x * 10\<bar> = - log 10 \<bar>x\<bar> - 1" and "1 < - log 10 \<bar>x\<bar>"
    by (simp_all add: abs_mult)
  moreover have "\<lceil>- log 10 \<bar>x\<bar> - 1\<rceil> = \<lceil>- log 10 \<bar>x\<bar>\<rceil> - 1"
    by (rule ceiling_diff_one)
  moreover have "1 < - log 10 \<bar>x\<bar> \<Longrightarrow> 1 < \<lceil>- log 10 \<bar>x\<bar>\<rceil>"
    by (simp add: less_ceiling_iff)
  ultimately have "nat \<lceil>- log 10 \<bar>x * 10\<bar>\<rceil> < nat \<lceil>- log 10 \<bar>x\<bar>\<rceil>"
    by simp
  then show "(x * 10, x) \<in> measure (\<lambda>x. nat \<lceil>- log 10 \<bar>x\<bar>\<rceil>)" by simp
qed

definition round_digits :: "real \<Rightarrow> nat \<Rightarrow> nat" where
  "round_digits x precision = (if \<bar>x\<bar> < 1 then lead_zeros x + precision else precision)"

definition round_frac :: "real \<Rightarrow> nat \<Rightarrow> real" where
  "round_frac x precision =
     (if x = 0 then x
      else real_of_int (rint (x * 10 ^ round_digits x precision)) / 10 ^ round_digits x precision)"

definition infer_precision :: "nat \<Rightarrow> real list \<Rightarrow> nat" where
  "infer_precision base_precision bins =
     (case filter (\<lambda>p. distinct (map (\<lambda>b. round_frac b p) bins)) [base_precision..<20] of
        [] \<Rightarrow> base_precision
      | p # _ \<Rightarrow> p)"

text \<open>
  The text of a rounded edge, as Python prints a float: the decimal digits without trailing
  zeros, at least one digit after the point. \<open>decimal_str n digits\<close> is the text of
  \<open>n / 10 ^ digits\<close>. (Python switches to exponent notation below \<open>10\<^sup>-\<^sup>4\<close> and from
  \<open>10\<^sup>1\<^sup>6\<close> on; that is not modelled.)
\<close>

function string_of_nat :: "nat \<Rightarrow> string" where
  "string_of_nat n =
     (if n < 10 then [''0123456789'' ! n]
      else string_of_nat (n div 10) @ [''0123456789'' ! (n mod 10)])"
  by pat_completeness auto
termination
  by (relation "measure id") auto

definition decimal_str :: "int \<Rightarrow> nat \<Rightarrow> string" where
  "decimal_str n digits =
     (let a = nat \<bar>n\<bar>;
          fs = string_of_nat (a mod 10 ^ digits);
          padded = replicate (digits - length fs) (CHR ''0'') @ fs;
          stripped = rev (dropWhile (\<lambda>c. c = CHR ''0'') (rev padded))
      in (if n < 0 then ''-'' else []) @ string_of_nat (a div 10 ^ digits) @ ''.''
           @ (if stripped = [] then ''0'' else stripped))"

definition edge_str :: "real \<Rightarrow> nat \<Rightarrow> string" where
  "edge_str x precision =
     (if x = 0 then ''0.0''
      else decimal_str (rint (x * 10 ^ round_digits x precision)) (round_digits x precision))"

definition format_labels :: "real list \<Rightarrow> nat \<Rightarrow> string list" where
  "format_labels bins precision =
     (let p = infer_precision precision bins;
          breaks = map (\<lambda>b. edge_str b p) bins
      in map (\<lambda>i. ''('' @ breaks ! i @ '', '' @ breaks ! (i + 1) @ '']'') [0..<length bins - 1])"

text \<open>
  \<^verbatim>\<open>pd.cut(x, bins=n).astype(str)\<close>: the label of each value's bin, \<^verbatim>\<open>'nan'\<close> for a value
  in no bin.
\<close>

definition cut_astype_str :: "(real \<Rightarrow> real) \<Rightarrow> real list \<Rightarrow> int \<Rightarrow> py_error + string list" where
  "cut_astype_str rnd x nbins =
     (case cut_bins rnd x nbins of
        Inl e \<Rightarrow> Inl e
      | Inr bins \<Rightarrow>
          Inr (map (\<lambda>v. case bin_code bins v of
                           None \<Rightarrow> ''nan''
                         | Some k \<Rightarrow> format_labels bins 3 ! k) x))"

subsection \<open>Average sales by fuel price range and by temperature range\<close>

text \<open>
  Both charts bin the column of the whole frame \<^verbatim>\<open>df\<close>; the sidebar selections
  \<^verbatim>\<open>date_range\<close> and \<^verbatim>\<open>holiday_filter\<close> are not read. The averages are those of
  \<^verbatim>\<open>groupby(...).mean()\<close>.
\<close>

definition fuel_bin_edges :: "(real \<Rightarrow> real) \<Rightarrow> dataframe \<Rightarrow> py_error + real list" where
  "fuel_bin_edges rnd df = cut_bins rnd (map Fuel_Price df) 5"

definition temp_bin_edges :: "(real \<Rightarrow> real) \<Rightarrow> dataframe \<Rightarrow> py_error + real list" where
  "temp_bin_edges rnd df = cut_bins rnd (map Temperature df) 6"

definition Fuel_Bin :: "(real \<Rightarrow> real) \<Rightarrow> dataframe \<Rightarrow> py_error + string list" where
  "Fuel_Bin rnd df = cut_astype_str rnd (map Fuel_Price df) 5"

definition Temp_Bin :: "(real \<Rightarrow> real) \<Rightarrow> dataframe \<Rightarrow> py_error + string list" where
  "Temp_Bin rnd df = cut_astype_str rnd (map Temperature df) 6"

definition fuel_sales ::
  "(real \<Rightarrow> real) \<Rightarrow> float_ops \<Rightarrow> dataframe \<Rightarrow> py_error + (string \<times> fval) list" where
  "fuel_sales rnd ops df =
     (case Fuel_Bin rnd df of
        Inl e \<Rightarrow> Inl e
      | Inr col \<Rightarrow> Inr (groupby_agg fst (\<lambda>r. Weekly_Sales (snd r)) (mean ops) (zip col df)))"

definition temp_sales ::
  "(real \<Rightarrow> real) \<Rightarrow> float_ops \<Rightarrow> dataframe \<Rightarrow> py_error + (string \<times> fval) list" where
  "temp_sales rnd ops df =
     (case Temp_Bin rnd df of
        Inl e \<Rightarrow> Inl e
      | Inr col \<Rightarrow> Inr (groupby_agg fst (\<lambda>r. Weekly_Sales (snd r)) (mean ops) (zip col df)))"

text \<open>Bins of equal width: every two neighbouring bins are as wide as each other.\<close>

fun equal_width :: "real list \<Rightarrow> bool" where
  "equal_width (a # b # c # es) \<longleftrightarrow> b - a = c - b \<and> equal_width (b # c # es)"
| "equal_width _ \<longleftrightarrow> True"

section \<open>Loading the data (lines 12--15)\<close>

text \<open>
  \<^verbatim>\<open>pd.read_csv('merged_data.csv', parse_dates=['Date'])\<close>. What is found at the path is
  nothing, or an empty file, or text that the CSV tokenizer rejects, or a table: the names
  of the header line with the text cells of their columns. pandas raises
  \<^verbatim>\<open>FileNotFoundError\<close>, \<^verbatim>\<open>EmptyDataError\<close> and \<^verbatim>\<open>ParserError\<close> in the first three cases.

  The reader names the columns (\<^verbatim>\<open>pandas/_libs/parsers.pyx\<close>, \<^verbatim>\<open>_get_header\<close>, pandas
  2): an empty name at position \<open>i\<close> becomes \<^verbatim>\<open>Unnamed: i\<close>; then, the named columns first
  and the unnamed ones after them, a name that was given out before gets the suffix \<^verbatim>\<open>.k\<close>
  with the first \<open>k\<close>, counted from the number of its earlier uses, for which the new name is
  not in the header (\<open>free_suffix\<close>; one of as many suffixes as the header has names, and one
  more, is free). \<^verbatim>\<open>ValueError\<close> is raised when no column is named \<^verbatim>\<open>Date\<close> after that.
  The column named \<^verbatim>\<open>Date\<close> is converted to timestamps when all its values parse and is
  returned unaltered, as text, otherwise. The parser of a single date is a parameter. No
  other column is looked at by \<^verbatim>\<open>load_data\<close>.
\<close>

datatype cell = Text string | Timestamp int

datatype csv_source = Missing | Empty | Malformed | Table "(string \<times> string list) list"

type_synonym raw_frame = "(string \<times> cell list) list"

definition unnamed_header :: "string list \<Rightarrow> string list" where
  "unnamed_header header =
     map (\<lambda>i. if header ! i = [] then ''Unnamed: '' @ string_of_nat i else header ! i)
       [0..<length header]"

definition free_suffix :: "string list \<Rightarrow> string \<Rightarrow> nat \<Rightarrow> nat option" where
  "free_suffix this_header col cur_count =
     find (\<lambda>k. col @ ''.'' @ string_of_nat k \<notin> set this_header)
       [cur_count..<cur_count + length this_header + 1]"

definition dedup_step ::
  "nat \<Rightarrow> string list \<times> (string \<Rightarrow> nat) \<Rightarrow> string list \<times> (string \<Rightarrow> nat)" where
  "dedup_step i state =
     (let this_header = fst state; counts = snd state;
          col = this_header ! i; cur_count = counts col
      in if cur_count = 0 then (this_header, counts(col := 1))
         else (case free_suffix this_header col cur_count of
                 None \<Rightarrow> (this_header, counts)
               | Some k \<Rightarrow>
                   (this_header[i := col @ ''.'' @ string_of_nat k],
                    counts(col := k + 1, col @ ''.'' @ string_of_nat k := 1))))"

definition header_names :: "string list \<Rightarrow> string list" where
  "header_names header =
     (let col_indices = filter (\<lambda>i. header ! i \<noteq> []) [0..<length header];
          unnamed_col_indices = filter (\<lambda>i. header ! i = []) [0..<length header]
      in fst (fold dedup_step (col_indices @ unnamed_col_indices)
                (unnamed_header header, \<lambda>name. 0)))"

definition parse_dates_column :: "(string \<Rightarrow> int option) \<Rightarrow> string list \<Rightarrow> cell list" where
  "parse_dates_column parse col =
     (if list_all (\<lambda>s. parse s \<noteq> None) col
      then map (\<lambda>s. case parse s of Some d \<Rightarrow> Timestamp d | None \<Rightarrow> Text s) col
      else map Text col)"

definition load_data :: "(string \<Rightarrow> int option) \<Rightarrow> csv_source \<Rightarrow> py_error + raw_frame" where
  "load_data parse source =
     (case source of
        Missing \<Rightarrow> Inl FileNotFoundError
      | Empty \<Rightarrow> Inl EmptyDataError
      | Malformed \<Rightarrow> Inl ParserError
      | Table cols \<Rightarrow>
          let names = header_names (map fst cols) in
          if ''Date'' \<notin> set names then Inl ValueError
          else Inr (map (\<lambda>(name, col).
                     (name, if name = ''Date'' then parse_dates_column parse col else map Text col))
                     (zip names (map snd cols))))"

text \<open>The columns that the specification requires of the input file.\<close>

definition required_columns :: "string list" where
  "required_columns =
     [''Date'', ''Store'', ''Dept'', ''Weekly_Sales'', ''IsHoliday_x'', ''IsSuperBowl'',
      ''IsLaborDay'', ''IsThanksgiving'', ''IsChristmas'', ''Fuel_Price'', ''Temperature'',
      ''Size'', ''Type'']"

section \<open>Example rows and frames\<close>

text \<open>Concrete inputs at which the theorems below are instantiated.\<close>

definition row0 :: sales_record where
  "row0 = \<lparr>Date = 14645, Store = 1, Dept = 1, Weekly_Sales = 100, IsHoliday_x = False,
           IsSuperBowl = False, IsLaborDay = False, IsThanksgiving = False, IsChristmas = False,
           Fuel_Price = 0, Temperature = 0, Month_Name = ''February''\<rparr>"

definition row_holiday :: sales_record where
  "row_holiday = row0\<lparr>Date := 14652, IsHoliday_x := True, IsSuperBowl := True\<rparr>"

definition row_two_flags :: sales_record where
  "row_two_flags = row0\<lparr>IsSuperBowl := True, IsChristmas := True\<rparr>"

definition row_on :: "int \<Rightarrow> sales_record" where
  "row_on d = row0\<lparr>Date := d\<rparr>"

definition row_in :: "string \<Rightarrow> real \<Rightarrow> sales_record" where
  "row_in m v = row0\<lparr>Month_Name := m, Weekly_Sales := v\<rparr>"

definition row_sale :: "real \<Rightarrow> sales_record" where
  "row_sale v = row0\<lparr>Weekly_Sales := v\<rparr>"




definition tiny_baseline_frame :: dataframe where
  "tiny_baseline_frame = [row_sale (1 / 2 ^ 1020), (row_sale 150)\<lparr>IsChristmas := True\<rparr>]"

definition example_parser :: "string \<Rightarrow> int option" where
  "example_parser s = (if s = ''2010-02-05'' then Some 14645 else None)"

definition row_fuel :: "real \<Rightarrow> sales_record" where
  "row_fuel v = row0\<lparr>Fuel_Price := v\<rparr>"

definition row_temp :: "real \<Rightarrow> real \<Rightarrow> sales_record" where
  "row_temp t v = row0\<lparr>Temperature := t, Weekly_Sales := v\<rparr>"

definition temp_frame :: dataframe where
  "temp_frame = [row_temp 0 1, row_temp 30 2, row_temp 120 3]"

section \<open>Theorems\<close>

subsection \<open>Filters\<close>

lemma holiday_step_filter: "holiday_step hf d = filter (\<lambda>r. holiday_pred hf r) d"
  by (simp add: holiday_step_def holiday_pred_def)

lemma date_mask_pair: "date_mask [ds, de] r = date_pred ds de r"
  by (auto simp: date_mask_def date_pred_def)

text \<open>
  C1. For a date range of two dates, each of the two filtered views is the frame restricted
  to the rows that satisfy every active predicate: the date within the inclusive bounds, the
  holiday predicate of the selected mode, and for the chart view the store and department
  equalities. Rows keep their order and multiplicity. With the mode \<^verbatim>\<open>All\<close> and bounds that
  every row satisfies, the sidebar view is the frame itself.
\<close>

theorem filter_conjunction:
  "df_filtered df [date_start, date_end] hf =
     Inr (filter (\<lambda>r. date_pred date_start date_end r \<and> holiday_pred hf r) df)
   \<and> df_chart_filtered df s d [date_start, date_end] hf =
     Inr (filter (\<lambda>r. Store r = s \<and> Dept r = d \<and> date_pred date_start date_end r \<and> holiday_pred hf r) df)
   \<and> ((\<forall>r \<in> set df. date_pred date_start date_end r) \<longrightarrow>
        df_filtered df [date_start, date_end] ''All'' = Inr df)"
proof (intro conjI impI)
  show "df_filtered df [date_start, date_end] hf =
     Inr (filter (\<lambda>r. date_pred date_start date_end r \<and> holiday_pred hf r) df)"
    by (simp add: df_filtered_def holiday_step_filter date_mask_pair[abs_def] conj_commute)
  show "df_chart_filtered df s d [date_start, date_end] hf =
     Inr (filter (\<lambda>r. Store r = s \<and> Dept r = d \<and> date_pred date_start date_end r \<and> holiday_pred hf r) df)"
    by (simp add: df_chart_filtered_def holiday_step_filter date_mask_pair conj_commute conj_left_commute)
  assume "\<forall>r \<in> set df. date_pred date_start date_end r"
  then show "df_filtered df [date_start, date_end] ''All'' = Inr df"
    by (simp add: df_filtered_def holiday_step_def date_mask_pair[abs_def])
qed

theorem filter_conjunction_witness:
  "df_filtered [row0, row_holiday] [14640, 14660] ''Yes'' = Inr [row_holiday]
   \<and> df_chart_filtered [row0, row_holiday] 1 1 [14640, 14650] ''No'' = Inr [row0]
   \<and> date_pred 14640 14660 row0 \<and> date_pred 14640 14660 row_holiday
   \<and> df_filtered [row0, row_holiday] [14640, 14660] ''All'' = Inr [row0, row_holiday]"
  using filter_conjunction [of "[row0, row_holiday]" 14640 14660 "''Yes''" 1 1]
    filter_conjunction [of "[row0, row_holiday]" 14640 14650 "''No''" 1 1]
  by (simp add: date_pred_def holiday_pred_def row0_def row_holiday_def)

subsection \<open>Holiday types\<close>

lemma loc_assign_map:
  "length msk = length col \<Longrightarrow> loc_assign msk v col = map (\<lambda>(m, x). if m then v else x) (zip msk col)"
  by (induction msk v col rule: loc_assign.induct) auto

lemma df_holidays_Holiday_Type_nth:
  assumes "i < length df"
  shows "df_holidays_Holiday_Type df ! i =
     (if IsChristmas (df ! i) then ''Christmas''
      else if IsThanksgiving (df ! i) then ''Thanksgiving''
      else if IsLaborDay (df ! i) then ''Labor Day''
      else if IsSuperBowl (df ! i) then ''Super Bowl''
      else ''None'')"
  using assms by (simp add: df_holidays_Holiday_Type_def Let_def loc_assign_map)

lemma length_df_holidays_Holiday_Type: "length (df_holidays_Holiday_Type df) = length df"
  by (simp add: df_holidays_Holiday_Type_def Let_def loc_assign_map)

text \<open>
  C2. The priority Super Bowl, Labor Day, Thanksgiving, Christmas is not kept in every place
  where rows are classified. On a row with the Super Bowl and Christmas flags both true,
  \<open>get_holiday_type\<close> (lines 490--500) answers Super Bowl, while the column built for
  \<^verbatim>\<open>df_holidays\<close> (lines 407--412) holds Christmas: its assignments run in the same order
  of the flags, and the last one made overwrites the others.
\<close>

theorem holiday_type_priority_counterexample:
  "flag_count row_two_flags = 2
   \<and> get_holiday_type row_two_flags = ''Super Bowl''
   \<and> df_holidays_Holiday_Type [row_two_flags] ! 0 = ''Christmas''"
  by (simp add: flag_count_def get_holiday_type_def df_holidays_Holiday_Type_def row_two_flags_def row0_def)

text \<open>
  Both classifications are total: each gives every row one of the five labels.
  \<open>get_holiday_type\<close> gives the first true flag in the order Super Bowl, Labor Day,
  Thanksgiving, Christmas; the column of \<^verbatim>\<open>df_holidays\<close> gives the first true flag in the
  opposite order Christmas, Thanksgiving, Labor Day, Super Bowl, since a later assignment
  overwrites an earlier one.
\<close>

theorem holiday_type_total:
  "get_holiday_type r \<in> holiday_labels
   \<and> get_holiday_type r =
       priority_label [(''Super Bowl'', IsSuperBowl r), (''Labor Day'', IsLaborDay r),
                       (''Thanksgiving'', IsThanksgiving r), (''Christmas'', IsChristmas r)]
   \<and> length (df_holidays_Holiday_Type df) = length df
   \<and> (\<forall>i < length df.
         df_holidays_Holiday_Type df ! i \<in> holiday_labels
       \<and> df_holidays_Holiday_Type df ! i =
           priority_label [(''Christmas'', IsChristmas (df ! i)), (''Thanksgiving'', IsThanksgiving (df ! i)),
                           (''Labor Day'', IsLaborDay (df ! i)), (''Super Bowl'', IsSuperBowl (df ! i))])"
  by (auto simp: get_holiday_type_def holiday_labels_def priority_label_def
        df_holidays_Holiday_Type_nth length_df_holidays_Holiday_Type)

theorem holiday_type_total_witness:
  "get_holiday_type row_two_flags = ''Super Bowl''
   \<and> ''Super Bowl'' \<in> holiday_labels
   \<and> df_holidays_Holiday_Type [row_two_flags] ! 0 = ''Christmas''
   \<and> ''Christmas'' \<in> holiday_labels"
  using holiday_type_total [of row_two_flags "[row_two_flags]"]
  by (simp add: priority_label_def row_two_flags_def row0_def holiday_labels_def)

text \<open>
  C10. On every row in which at most one of the four flags is true, the column built by the
  sequential assignments for \<^verbatim>\<open>df_holidays\<close> holds the label that \<open>get_holiday_type\<close>
  returns for the row.
\<close>

theorem classification_agree:
  assumes "i < length df" and "flag_count (df ! i) \<le> 1"
  shows "df_holidays_Holiday_Type df ! i = get_holiday_type (df ! i)"
  using assms
  by (auto simp: df_holidays_Holiday_Type_nth get_holiday_type_def flag_count_def split: if_splits)

theorem classification_agree_witness:
  "0 < length [row_holiday] \<and> flag_count ([row_holiday] ! 0) \<le> 1
   \<and> df_holidays_Holiday_Type [row_holiday] ! 0 = ''Super Bowl''
   \<and> get_holiday_type ([row_holiday] ! 0) = ''Super Bowl''"
  using classification_agree [of 0 "[row_holiday]"]
  by (simp add: flag_count_def get_holiday_type_def row_holiday_def row0_def)

subsection \<open>Windows around holidays\<close>

lemma set_window: "t \<in> set (window df anchor name) \<longleftrightarrow> in_window df anchor name t"
proof -
  have fl: "\<lfloor>real_of_int k / 7\<rfloor> = k div 7" for k :: int
    using floor_divide_of_int_eq [of k 7] by simp
  show ?thesis
    unfolding window_def in_window_def fl
    by (cases t) auto
qed

lemma get_holiday_windows_Inr:
  "holiday_dates \<noteq> [] \<Longrightarrow>
   get_holiday_windows df holiday_dates name = Inr (concat (map (\<lambda>date. window df date name) holiday_dates))"
  by (simp add: get_holiday_windows_def pd_concat_def)

text \<open>
  C5. For a non-empty list of anchor dates, \<open>get_holiday_windows\<close> returns exactly the rows
  dated within 14 days of an anchor, both ends included, each with the offset
  \<open>floor ((date - anchor) / 7)\<close>; \<open>combined_trends\<close> returns these rows for the sixteen
  anchors of the four events. A row 14 days before the anchor has offset -2, a row 14 days
  after it has offset 2, and a row further away is in the window with no offset at all.
\<close>

theorem window_offsets:
  "(holiday_dates \<noteq> [] \<longrightarrow>
      (\<exists>w. get_holiday_windows df holiday_dates name = Inr w
         \<and> (\<forall>t. t \<in> set w \<longleftrightarrow> (\<exists>a \<in> set holiday_dates. in_window df a name t))))
   \<and> (\<exists>w. combined_trends df = Inr w
         \<and> (\<forall>t. t \<in> set w \<longleftrightarrow>
               (\<exists>(name, dates) \<in> set holiday_anchors. \<exists>a \<in> set dates. in_window df a name t)))
   \<and> (r \<in> set df \<and> Date r = anchor - 14 \<longrightarrow>
         in_window df anchor name \<lparr>Row = r, Event = name, Delta_Week = - 2\<rparr>)
   \<and> (r \<in> set df \<and> Date r = anchor + 14 \<longrightarrow>
         in_window df anchor name \<lparr>Row = r, Event = name, Delta_Week = 2\<rparr>)
   \<and> (Date r < anchor - 14 \<or> anchor + 14 < Date r \<longrightarrow>
         (\<forall>k. \<not> in_window df anchor name \<lparr>Row = r, Event = name, Delta_Week = k\<rparr>))"
proof (intro conjI)
  show "holiday_dates \<noteq> [] \<longrightarrow>
      (\<exists>w. get_holiday_windows df holiday_dates name = Inr w
         \<and> (\<forall>t. t \<in> set w \<longleftrightarrow> (\<exists>a \<in> set holiday_dates. in_window df a name t)))"
    by (auto simp: get_holiday_windows_Inr set_window)
  show "\<exists>w. combined_trends df = Inr w
         \<and> (\<forall>t. t \<in> set w \<longleftrightarrow>
               (\<exists>(name, dates) \<in> set holiday_anchors. \<exists>a \<in> set dates. in_window df a name t))"
    by (simp add: combined_trends_def get_holiday_windows_Inr pd_concat_def holiday_anchors_def
          set_window)
  show "r \<in> set df \<and> Date r = anchor - 14 \<longrightarrow>
         in_window df anchor name \<lparr>Row = r, Event = name, Delta_Week = - 2\<rparr>"
    by (simp add: in_window_def)
  show "r \<in> set df \<and> Date r = anchor + 14 \<longrightarrow>
         in_window df anchor name \<lparr>Row = r, Event = name, Delta_Week = 2\<rparr>"
    by (simp add: in_window_def)
  show "Date r < anchor - 14 \<or> anchor + 14 < Date r \<longrightarrow>
         (\<forall>k. \<not> in_window df anchor name \<lparr>Row = r, Event = name, Delta_Week = k\<rparr>)"
    by (auto simp: in_window_def)
qed

theorem window_offsets_witness:
  "get_holiday_windows
     [row_on (days_from_civil 2010 1 29), row_on (days_from_civil 2010 2 26), row_on (days_from_civil 2010 3 5)]
     [days_from_civil 2010 2 12] ''Super Bowl'' =
   Inr [\<lparr>Row = row_on (days_from_civil 2010 1 29), Event = ''Super Bowl'', Delta_Week = - 2\<rparr>,
        \<lparr>Row = row_on (days_from_civil 2010 2 26), Event = ''Super Bowl'', Delta_Week = 2\<rparr>]
   \<and> in_window [row_on (days_from_civil 2010 1 29)] (days_from_civil 2010 2 12) ''Super Bowl''
        \<lparr>Row = row_on (days_from_civil 2010 1 29), Event = ''Super Bowl'', Delta_Week = - 2\<rparr>"
  using window_offsets [of "[days_from_civil 2010 2 12]"
      "[row_on (days_from_civil 2010 1 29)]" "''Super Bowl''"
      "row_on (days_from_civil 2010 1 29)" "days_from_civil 2010 2 12"]
  by (simp add: get_holiday_windows_def pd_concat_def window_def row_on_def days_from_civil_def)

subsection \<open>Grouping\<close>

lemma map_of_keyed: "map_of (map (\<lambda>k. (k, f k)) ks) k = (if k \<in> set ks then Some (f k) else None)"
  by (induction ks) auto

lemma map_of_groupby_agg:
  "map_of (groupby_agg key column agg frame) k =
     (if k \<in> key ` set frame then Some (agg (map column (filter (\<lambda>r. key r = k) frame))) else None)"
  by (simp add: groupby_agg_def map_of_keyed)

lemma keys_groupby_agg:
  "map fst (groupby_agg key column agg frame) = sort (remdups (map key frame))"
  by (simp add: groupby_agg_def comp_def)

lemma monthly_sales_eq: "monthly_sales frame = map (\<lambda>m. (m, month_total frame m)) monthly_order"
  by (simp add: monthly_sales_def reindex_def map_of_groupby_agg month_total_def)

text \<open>
  C3. For every frame, the monthly totals have exactly 12 entries, keyed January to December
  in this order; the value of a month is the sum of its rows, and it is missing exactly when
  the frame has no row of that month. On the empty frame all 12 values are missing.
\<close>

theorem monthly_sales_complete:
  "length (monthly_sales frame) = 12
   \<and> map fst (monthly_sales frame) = monthly_order
   \<and> map snd (monthly_sales frame) = map (month_total frame) monthly_order
   \<and> (\<forall>m \<in> set monthly_order. month_total frame m = None \<longleftrightarrow> (\<forall>r \<in> set frame. Month_Name r \<noteq> m))
   \<and> monthly_sales [] = map (\<lambda>m. (m, None)) monthly_order"
proof (intro conjI)
  show "length (monthly_sales frame) = 12"
    by (simp add: monthly_sales_eq monthly_order_def)
  show "map fst (monthly_sales frame) = monthly_order"
    by (simp add: monthly_sales_eq comp_def)
  show "map snd (monthly_sales frame) = map (month_total frame) monthly_order"
    by (simp add: monthly_sales_eq comp_def)
  show "\<forall>m \<in> set monthly_order. month_total frame m = None \<longleftrightarrow> (\<forall>r \<in> set frame. Month_Name r \<noteq> m)"
    by (auto simp: month_total_def)
  show "monthly_sales [] = map (\<lambda>m. (m, None)) monthly_order"
    by (simp add: monthly_sales_eq month_total_def)
qed

theorem monthly_sales_complete_witness:
  "monthly_sales [row_in ''March'' 5, row_in ''January'' 2, row_in ''March'' 1, row_in ''Smarch'' 9] =
     [(''January'', Some 2), (''February'', None), (''March'', Some 6), (''April'', None),
      (''May'', None), (''June'', None), (''July'', None), (''August'', None),
      (''September'', None), (''October'', None), (''November'', None), (''December'', None)]
   \<and> month_total [row_in ''March'' 5, row_in ''January'' 2, row_in ''March'' 1, row_in ''Smarch'' 9] ''February'' = None"
  using monthly_sales_complete [of "[row_in ''March'' 5, row_in ''January'' 2, row_in ''March'' 1, row_in ''Smarch'' 9]"]
  by (simp add: monthly_sales_eq month_total_def monthly_order_def row_in_def row0_def)

subsection \<open>Holiday lift\<close>












lemma binary64_exact:
  "binary64 100 = 100" "binary64 150 = 150" "binary64 400 = 400" "binary64 200 = 200"
  "binary64 50 = 50" "binary64 (1 / 2) = 1 / 2" "binary64 1 = 1" "binary64 180 = 180"
  "binary64 5000 = 5000" "binary64 10000 = 10000"
  by (simp_all add: binary64_def ulp_def bin_exp.simps rint_def Let_def)

lemma to_fval_exact:
  "to_fval 100 = Fin 100" "to_fval 150 = Fin 150" "to_fval 400 = Fin 400" "to_fval 200 = Fin 200"
  "to_fval 50 = Fin 50" "to_fval (1 / 2) = Fin (1 / 2)" "to_fval 1 = Fin 1" "to_fval 180 = Fin 180"
  "to_fval 5000 = Fin 5000" "to_fval 10000 = Fin 10000"
  by (simp_all add: to_fval_def binary64_exact Let_def)











text \<open>
  The average is zero when the float computation gives zero, not when the exact mean is
  zero: the floats 0.1, 0.2 and -0.3 have the average 1.85e-17, not zero, and for
  \<open>rounding_frame\<close> a lift of 8.1e20 percent is reported. A baseline that is not zero
  but very small gives an infinite lift, and the row is reported: \<^verbatim>\<open>dropna\<close> keeps an
  infinity.
\<close>

lemma lift_infinite_example:
  "baseline ieee_ops tiny_baseline_frame 1 1 = Fin (1 / 2 ^ 1020)
   \<and> df_lift ieee_ops tiny_baseline_frame 1 1 =
     [\<lparr>Holiday_Type = ''Christmas'', Holiday_Week_Avg_Sales = Fin 150,
        Non_Holiday_Week_Avg_Sales = Fin (1 / 2 ^ 1020), Sales_Lift_Percent = Some PInf\<rparr>]"
proof -
  have sel: "df_filtered_holiday tiny_baseline_frame 1 1 = tiny_baseline_frame"
    by (simp add: df_filtered_holiday_def tiny_baseline_frame_def row_sale_def row0_def)
  have types: "map get_holiday_type tiny_baseline_frame = [''None'', ''Christmas'']"
    by (simp add: tiny_baseline_frame_def get_holiday_type_def row_sale_def row0_def)
  have s0: "to_fval (1 / 2 ^ 1020) = Fin (1 / 2 ^ 1020)"
    by (simp add: to_fval_def binary64_def ulp_def bin_exp.simps rint_def Let_def)
  have s1: "to_fval (150 - 1 / 2 ^ 1020) = Fin 150"
    by (simp add: to_fval_def binary64_def ulp_def bin_exp.simps rint_def Let_def)
  have s2: "to_fval (150 / (1 / 2 ^ 1020)) = PInf"
    by (simp add: to_fval_def binary64_def ulp_def bin_exp.simps rint_def Let_def)
  have m: "seq_mean [1 / 2 ^ 1020] = Fin (1 / 2 ^ 1020)"
    using s0 by (simp add: seq_mean_def)
  have h: "seq_mean [150] = Fin 150"
    by (simp add: seq_mean_def to_fval_exact)
  have l: "fmul_ieee (fdiv_ieee (fsub_ieee (Fin 150) (Fin (1 / 2 ^ 1020))) (Fin (1 / 2 ^ 1020))) (Fin 100)
      = PInf"
    using s1 s2 by (simp add: fsub_ieee_def)
  have b: "baseline ieee_ops tiny_baseline_frame 1 1 = Fin (1 / 2 ^ 1020)"
    unfolding baseline_def sel
    using m by (simp add: tiny_baseline_frame_def get_holiday_type_def mean_def ieee_ops_def
        row_sale_def row0_def)
  have lr: "lift_results ieee_ops tiny_baseline_frame 1 1 =
     [\<lparr>Holiday_Type = ''Christmas'', Holiday_Week_Avg_Sales = Fin 150,
        Non_Holiday_Week_Avg_Sales = Fin (1 / 2 ^ 1020), Sales_Lift_Percent = Some PInf\<rparr>]"
    unfolding lift_results_def Let_def sel types
    using m h l
    by (simp add: tiny_baseline_frame_def lift_entry_def get_holiday_type_def mean_def
        ieee_ops_def row_sale_def row0_def Let_def)
  have d: "df_lift ieee_ops tiny_baseline_frame 1 1 =
     [\<lparr>Holiday_Type = ''Christmas'', Holiday_Week_Avg_Sales = Fin 150,
        Non_Holiday_Week_Avg_Sales = Fin (1 / 2 ^ 1020), Sales_Lift_Percent = Some PInf\<rparr>]"
    unfolding df_lift_def lr by (simp add: dropna_def)
  from b d show ?thesis by simp
qed

subsection \<open>Loading\<close>

lemma length_fold_dedup_step:
  "length (fst (fold dedup_step is state)) = length (fst state)"
proof (induction "is" arbitrary: state)
  case Nil
  show ?case by simp
next
  case (Cons i "is")
  have "length (fst (dedup_step i state)) = length (fst state)"
    by (simp add: dedup_step_def Let_def split: option.splits)
  with Cons show ?case by simp
qed

lemma length_header_names: "length (header_names header) = length header"
  by (simp add: header_names_def Let_def length_fold_dedup_step unnamed_header_def)

lemma unnamed_header_named: "[] \<notin> set header \<Longrightarrow> unnamed_header header = header"
proof (rule nth_equalityI)
  show "length (unnamed_header header) = length header" by (simp add: unnamed_header_def)
next
  fix i assume i: "i < length (unnamed_header header)" and ne: "[] \<notin> set header"
  from i have il: "i < length header" by (simp add: unnamed_header_def)
  with ne have "header ! i \<noteq> []" by (metis nth_mem)
  with il show "unnamed_header header ! i = header ! i"
    by (simp add: unnamed_header_def)
qed

lemma fold_dedup_step_distinct:
  assumes "distinct header" and "k \<le> length header"
  shows "fold dedup_step [0..<k] (header, \<lambda>name. 0) =
           (header, \<lambda>name. if name \<in> set (take k header) then 1 else 0)"
  using assms(2)
proof (induction k)
  case 0
  show ?case by simp
next
  case (Suc k)
  then have k: "k < length header" by simp
  have new: "header ! k \<notin> set (take k header)"
  proof
    assume "header ! k \<in> set (take k header)"
    then obtain j where "j < k" and "header ! j = header ! k"
      using k by (auto simp: in_set_conv_nth)
    with k assms(1) show False by (simp add: distinct_conv_nth)
  qed
  have "fold dedup_step [0..<Suc k] (header, \<lambda>name. 0) =
      dedup_step k (header, \<lambda>name. if name \<in> set (take k header) then 1 else 0)"
    using Suc by simp
  also have "\<dots> = (header, \<lambda>name. if name \<in> set (take (Suc k) header) then 1 else 0)"
    using new k by (auto simp: dedup_step_def Let_def take_Suc_conv_app_nth fun_eq_iff)
  finally show ?case .
qed

lemma header_names_distinct:
  assumes "distinct header" and "[] \<notin> set header"
  shows "header_names header = header"
proof -
  have named: "\<forall>i < length header. header ! i \<noteq> []"
    using assms(2) by (metis nth_mem)
  have "filter (\<lambda>i. header ! i \<noteq> []) [0..<length header] = [0..<length header]"
    using named by (simp add: filter_id_conv)
  moreover have "filter (\<lambda>i. header ! i = []) [0..<length header] = []"
    using named by (simp add: filter_empty_conv)
  ultimately show ?thesis
    using fold_dedup_step_distinct [OF assms(1), of "length header"]
    by (simp add: header_names_def Let_def unnamed_header_named [OF assms(2)])
qed

lemma parse_dates_column_text:
  "\<exists>s \<in> set col. parse s = None \<Longrightarrow> parse_dates_column parse col = map Text col"
  by (auto simp: parse_dates_column_def list_all_iff)

lemma parse_dates_column_stamps:
  "\<forall>s \<in> set col. parse s \<noteq> None \<Longrightarrow>
     parse_dates_column parse col = map (\<lambda>s. Timestamp (the (parse s))) col"
  by (auto simp: parse_dates_column_def list_all_iff)

text \<open>
  C8, amended. \<open>load_data\<close> fails with the exception that pandas raises:
  \<^verbatim>\<open>FileNotFoundError\<close> when nothing is at the path, \<^verbatim>\<open>EmptyDataError\<close> when the file is
  empty, \<^verbatim>\<open>ParserError\<close> when the text is not readable as CSV, and \<^verbatim>\<open>ValueError\<close> when,
  after the reader has named the columns, none is named \<^verbatim>\<open>Date\<close>. Every other table loads,
  with one column for each column of the file under the reader's names: the column named
  \<^verbatim>\<open>Date\<close> converted to timestamps when all its values parse and left as text when one
  does not, every other column as it is. Names that are all different and not empty are
  kept, so a table that has a \<^verbatim>\<open>Date\<close> column loads whichever other columns it lacks.
\<close>

theorem load_data_failures:
  "load_data parse Missing = Inl FileNotFoundError
   \<and> load_data parse Empty = Inl EmptyDataError
   \<and> load_data parse Malformed = Inl ParserError
   \<and> length (header_names (map fst cols)) = length cols
   \<and> (''Date'' \<notin> set (header_names (map fst cols)) \<longrightarrow>
        load_data parse (Table cols) = Inl ValueError)
   \<and> (''Date'' \<in> set (header_names (map fst cols)) \<longrightarrow>
        (\<exists>frame. load_data parse (Table cols) = Inr frame
           \<and> map fst frame = header_names (map fst cols)
           \<and> (\<forall>i < length cols.
                 snd (frame ! i) =
                   (if header_names (map fst cols) ! i = ''Date''
                    then parse_dates_column parse (snd (cols ! i))
                    else map Text (snd (cols ! i))))))
   \<and> (distinct (map fst cols) \<and> [] \<notin> set (map fst cols) \<longrightarrow>
        header_names (map fst cols) = map fst cols)
   \<and> (distinct (map fst cols) \<and> [] \<notin> set (map fst cols) \<and> ''Date'' \<in> set (map fst cols) \<longrightarrow>
        (\<exists>frame. load_data parse (Table cols) = Inr frame \<and> map fst frame = map fst cols))
   \<and> ((\<exists>s \<in> set col. parse s = None) \<longrightarrow> parse_dates_column parse col = map Text col)
   \<and> ((\<forall>s \<in> set col. parse s \<noteq> None) \<longrightarrow>
        parse_dates_column parse col = map (\<lambda>s. Timestamp (the (parse s))) col)"
proof -
  let ?names = "header_names (map fst cols)"
  have len: "length ?names = length cols" by (simp add: length_header_names)
  have ok: "\<exists>frame. load_data parse (Table cols) = Inr frame
           \<and> map fst frame = ?names
           \<and> (\<forall>i < length cols.
                 snd (frame ! i) =
                   (if ?names ! i = ''Date''
                    then parse_dates_column parse (snd (cols ! i))
                    else map Text (snd (cols ! i))))"
    if "''Date'' \<in> set ?names"
  proof -
    let ?frame = "map (\<lambda>(name, col).
        (name, if name = ''Date'' then parse_dates_column parse col else map Text col))
        (zip ?names (map snd cols))"
    have 1: "load_data parse (Table cols) = Inr ?frame"
      using that by (simp add: load_data_def Let_def)
    have 2: "map fst ?frame = ?names"
      using len by (intro nth_equalityI) simp_all
    have 3: "\<forall>i < length cols.
                 snd (?frame ! i) =
                   (if ?names ! i = ''Date''
                    then parse_dates_column parse (snd (cols ! i))
                    else map Text (snd (cols ! i)))"
      using len by simp
    from 1 2 3 show ?thesis by blast
  qed
  have bad: "load_data parse (Table cols) = Inl ValueError" if "''Date'' \<notin> set ?names"
    using that by (simp add: load_data_def Let_def)
  have same: "?names = map fst cols" if "distinct (map fst cols) \<and> [] \<notin> set (map fst cols)"
    using that by (intro header_names_distinct) simp_all
  have direct: "\<exists>frame. load_data parse (Table cols) = Inr frame \<and> map fst frame = map fst cols"
    if a: "distinct (map fst cols) \<and> [] \<notin> set (map fst cols) \<and> ''Date'' \<in> set (map fst cols)"
  proof -
    from a have eq: "?names = map fst cols" by (intro same) simp
    with a have "''Date'' \<in> set ?names" by simp
    from ok [OF this] obtain frame
      where "load_data parse (Table cols) = Inr frame" and "map fst frame = ?names" by blast
    with eq show ?thesis by simp
  qed
  have m: "load_data parse Missing = Inl FileNotFoundError"
    and e: "load_data parse Empty = Inl EmptyDataError"
    and p: "load_data parse Malformed = Inl ParserError"
    by (simp_all add: load_data_def)
  have t: "(\<exists>s \<in> set col. parse s = None) \<longrightarrow> parse_dates_column parse col = map Text col"
    using parse_dates_column_text [of col parse] by blast
  have s: "(\<forall>s \<in> set col. parse s \<noteq> None) \<longrightarrow>
        parse_dates_column parse col = map (\<lambda>s. Timestamp (the (parse s))) col"
    using parse_dates_column_stamps [of col parse] by blast
  show ?thesis
    apply (intro conjI impI)
             apply (rule m)
            apply (rule e)
           apply (rule p)
          apply (rule len)
         apply (erule bad)
        apply (erule ok)
       apply (erule same)
      apply (erule direct)
    using t apply blast
    using s apply blast
    done
qed


lemma string_of_nat_digit:
  "string_of_nat 0 = ''0''" "string_of_nat 1 = ''1''" "string_of_nat 2 = ''2''"
  "string_of_nat (Suc 0) = ''1''" "string_of_nat (Suc (Suc 0)) = ''2''"
  by (simp_all add: string_of_nat.simps)

text \<open>
  A second \<^verbatim>\<open>Date\<close> column is named \<^verbatim>\<open>Date.1\<close> and is not converted; a column without a
  name is named after its position.
\<close>

theorem load_data_failures_witness:
  "load_data example_parser Missing = Inl FileNotFoundError
   \<and> load_data example_parser Empty = Inl EmptyDataError
   \<and> load_data example_parser Malformed = Inl ParserError
   \<and> load_data example_parser (Table [(''Store'', [''1''])]) = Inl ValueError
   \<and> load_data example_parser (Table [(''Date'', [''2010-02-05'']), (''Store'', [''1''])]) =
       Inr [(''Date'', [Timestamp 14645]), (''Store'', [Text ''1''])]
   \<and> header_names [''Date'', ''Date''] = [''Date'', ''Date.1'']
   \<and> load_data example_parser (Table [(''Date'', [''2010-02-05'']), (''Date'', [''2010-02-05''])]) =
       Inr [(''Date'', [Timestamp 14645]), (''Date.1'', [Text ''2010-02-05''])]
   \<and> header_names [[], ''Date''] = [''Unnamed: 0'', ''Date'']
   \<and> load_data example_parser (Table [([], [''0'']), (''Date'', [''2010-02-05''])]) =
       Inr [(''Unnamed: 0'', [Text ''0'']), (''Date'', [Timestamp 14645])]"
proof -
  have h1: "header_names [''Store''] = [''Store'']"
    and h2: "header_names [''Date'', ''Store''] = [''Date'', ''Store'']"
    by (simp_all add: header_names_distinct)
  have h3: "header_names [''Date'', ''Date''] = [''Date'', ''Date.1'']"
    and h4: "header_names [[], ''Date''] = [''Unnamed: 0'', ''Date'']"
    by (simp_all add: header_names_def unnamed_header_def dedup_step_def free_suffix_def Let_def
        string_of_nat_digit upt_rec [of _ "numeral _"] upt_rec [of _ "Suc _"])
  show ?thesis
    using load_data_failures [of example_parser "[(''Store'', [''1''])]" "[''2010-02-05'']"]
      load_data_failures [of example_parser "[(''Date'', [''2010-02-05'']), (''Store'', [''1''])]"
        "[''2010-02-05'']"]
      load_data_failures [of example_parser "[(''Date'', [''2010-02-05'']), (''Date'', [''2010-02-05''])]"
        "[''2010-02-05'']"]
    by (simp add: load_data_def parse_dates_column_def example_parser_def h1 h2 h3 h4)
qed

text \<open>
  C8, as the claim states it, fails: a file with the columns \<^verbatim>\<open>Date\<close> and \<^verbatim>\<open>Store\<close> only
  lacks the required column \<^verbatim>\<open>Weekly_Sales\<close> and loads without error; a file whose date does
  not parse loads without error too, the column left as text.
\<close>

theorem load_data_counterexample:
  "load_data example_parser (Table [(''Date'', [''2010-02-05'']), (''Store'', [''1''])]) =
     Inr [(''Date'', [Timestamp 14645]), (''Store'', [Text ''1''])]
   \<and> ''Weekly_Sales'' \<in> set required_columns
   \<and> ''Weekly_Sales'' \<notin> set (map fst [(''Date'', [''2010-02-05'']), (''Store'', [''1''])])
   \<and> example_parser ''next week'' = None
   \<and> load_data example_parser (Table [(''Date'', [''next week''])]) =
     Inr [(''Date'', [Text ''next week''])]"
proof -
  have h1: "header_names [''Date''] = [''Date'']"
    and h2: "header_names [''Date'', ''Store''] = [''Date'', ''Store'']"
    by (simp_all add: header_names_distinct)
  show ?thesis
    by (simp add: load_data_def parse_dates_column_def example_parser_def required_columns_def h1 h2)
qed

subsection \<open>Binned averages\<close>

lemma round_digits_ge: "1 / 10 \<le> \<bar>x\<bar> \<Longrightarrow> round_digits x p = p"
  by (simp add: round_digits_def lead_zeros.simps)

lemma rint_of_int: "rint (of_int k) = k"
  by (simp add: rint_def Let_def)

lemma rint_numeral: "rint (numeral n) = numeral n" "rint (- numeral n) = - numeral n"
  using rint_of_int [of "numeral n"] rint_of_int [of "- numeral n"] by simp_all

lemma edge_str_ge: "1 / 10 \<le> \<bar>x\<bar> \<Longrightarrow> edge_str x p = decimal_str (rint (x * 10 ^ p)) p"
  by (auto simp: edge_str_def round_digits_ge)

lemma round_frac_ge: "1 / 10 \<le> \<bar>x\<bar> \<Longrightarrow> round_frac x p = real_of_int (rint (x * 10 ^ p)) / 10 ^ p"
  by (auto simp: round_frac_def round_digits_ge)

lemma infer_precision_base:
  assumes "base < 20" and "distinct (map (\<lambda>b. round_frac b base) bins)"
  shows "infer_precision base bins = base"
proof -
  have "[base..<20] = base # [Suc base..<20]"
    using assms(1) by (rule upt_conv_Cons)
  with assms(2) show ?thesis by (simp add: infer_precision_def)
qed

lemma temp_frame_floats:
  "binary64 (1 / 1000) = 1152921504606847 / 1152921504606846976"
  "binary64 120 = 120"
  "binary64 20 = 20"
  "binary64 40 = 40"
  "binary64 60 = 60"
  "binary64 80 = 80"
  "binary64 100 = 100"
  "binary64 (17293822569102705 / 144115188075855872) = 1080863910568919 / 9007199254740992"
  "binary64 (- (1080863910568919 / 9007199254740992)) = - (1080863910568919 / 9007199254740992)"
  by (simp_all add: binary64_def ulp_def bin_exp.simps rint_def Let_def)

lemma binary64_zero: "binary64 0 = 0"
  by (simp add: binary64_def)

lemma temp_frame_temperatures: "map Temperature temp_frame = [0, 30, 120]"
  by (simp add: temp_frame_def row_temp_def row0_def)

lemma temp_frame_nbins:
  "nbins_to_bins binary64 [0, 30, 120] 6 =
     Inr [- (1080863910568919 / 9007199254740992), 20, 40, 60, 80, 100, 120]"
  by (simp add: nbins_to_bins_def linspace_def Let_def temp_frame_floats binary64_zero
      upt_rec [of _ "numeral _"] upt_rec [of _ "Suc _"])

lemma temp_frame_edges:
  "temp_bin_edges binary64 temp_frame =
     Inr [- (1080863910568919 / 9007199254740992), 20, 40, 60, 80, 100, 120]"
  unfolding temp_bin_edges_def temp_frame_temperatures cut_bins_def temp_frame_nbins
  by simp

lemma temp_frame_codes:
  "map (bin_code [- (1080863910568919 / 9007199254740992), 20, 40, 60, 80, 100, 120]) [0, 30, 120] =
     [Some 0, Some 1, Some 5]"
  by (simp add: bin_code_def searchsorted_left_def)

lemma rint_first_edge: "rint (- (1080863910568919 / 9007199254740992) * 10 ^ 3) = - 120"
  by (simp add: rint_def Let_def)

lemma temp_frame_edge_strs:
  "map (\<lambda>b. edge_str b 3) [- (1080863910568919 / 9007199254740992), 20, 40, 60, 80, 100, 120] =
   [''-0.12'', ''20.0'', ''40.0'', ''60.0'', ''80.0'', ''100.0'', ''120.0'']"
  using rint_first_edge
  by (simp add: edge_str_ge rint_numeral decimal_str_def Let_def string_of_nat.simps)

lemma temp_frame_precision:
  "infer_precision 3 [- (1080863910568919 / 9007199254740992), 20, 40, 60, 80, 100, 120] = 3"
  using rint_first_edge
  by (intro infer_precision_base) (simp_all add: round_frac_ge rint_numeral)

lemma temp_frame_labels:
  "format_labels [- (1080863910568919 / 9007199254740992), 20, 40, 60, 80, 100, 120] 3 =
  [''(-0.12, 20.0]'', ''(20.0, 40.0]'', ''(40.0, 60.0]'', ''(60.0, 80.0]'', ''(80.0, 100.0]'', ''(100.0, 120.0]'']"
  unfolding format_labels_def temp_frame_precision Let_def temp_frame_edge_strs
  by (simp add: upt_rec [of _ "numeral _"] upt_rec [of _ "Suc _"])

lemma temp_frame_Temp_Bin:
  "Temp_Bin binary64 temp_frame = Inr [''(-0.12, 20.0]'', ''(20.0, 40.0]'', ''(100.0, 120.0]'']"
proof -
  have "cut_bins binary64 [0, 30, 120] 6 =
      Inr [- (1080863910568919 / 9007199254740992), 20, 40, 60, 80, 100, 120]"
    using temp_frame_edges by (simp only: temp_bin_edges_def temp_frame_temperatures)
  then show ?thesis
    using temp_frame_codes
    by (simp only: Temp_Bin_def temp_frame_temperatures cut_astype_str_def sum.case temp_frame_labels
        list.map option.case)
       simp
qed

lemma temp_frame_label_order: "sort (remdups [''(-0.12, 20.0]'', ''(20.0, 40.0]'', ''(100.0, 120.0]'']) =
   [''(-0.12, 20.0]'', ''(100.0, 120.0]'', ''(20.0, 40.0]'']"
  by simp

lemma seq_mean_single: "seq_mean [1] = Fin 1" "seq_mean [2] = Fin 2" "seq_mean [3] = Fin 3"
  by (simp_all add: seq_mean_def to_fval_def binary64_def ulp_def bin_exp.simps rint_def Let_def)

text \<open>
  C9. The binned averages are not listed by ascending lower bound. For temperatures 0, 30
  and 120 the six bins have the edges -0.12, 20, 40, 60, 80, 100, 120 and the rows fall
  into the bins 0, 1 and 5; \<^verbatim>\<open>temp_sales\<close> lists the bin from 100 second and the bin from 20
  third. The script turns the intervals into text before it groups (line 336), and
  \<^verbatim>\<open>groupby\<close> sorts its keys: \<^verbatim>\<open>'(100.0, 120.0]'\<close> is before \<^verbatim>\<open>'(20.0, 40.0]'\<close> as text.
\<close>

theorem binned_order_counterexample:
  "temp_sales binary64 ieee_ops temp_frame =
     Inr [(''(-0.12, 20.0]'', Fin 1), (''(100.0, 120.0]'', Fin 3), (''(20.0, 40.0]'', Fin 2)]
   \<and> temp_bin_edges binary64 temp_frame =
       Inr [- (1080863910568919 / 9007199254740992), 20, 40, 60, 80, 100, 120]
   \<and> map (bin_code [- (1080863910568919 / 9007199254740992), 20, 40, 60, 80, 100, 120])
       (map Temperature temp_frame) = [Some 0, Some 1, Some 5]"
proof -
  have "temp_sales binary64 ieee_ops temp_frame =
     Inr [(''(-0.12, 20.0]'', Fin 1), (''(100.0, 120.0]'', Fin 3), (''(20.0, 40.0]'', Fin 2)]"
    unfolding temp_sales_def temp_frame_Temp_Bin sum.case groupby_agg_def
    by (simp add: temp_frame_label_order temp_frame_def row_temp_def row0_def mean_def
        ieee_ops_def seq_mean_single)
  then show ?thesis using temp_frame_edges temp_frame_codes temp_frame_temperatures by simp
qed

end
